theory Spec2Isabelle
  imports Complex_Main "HOL-Library.Monad_Syntax"
begin

section \<open>Rental marketplace backend: store, validation and route handlers\<close>

text \<open>
  The backend (\<^verbatim>\<open>src/backend/server.ts\<close>) is a set of route handlers over a relational
  store whose tables are declared in the schema file of the repository.  Each handler is
  modelled as a function from the store (and the authenticated actor, the request and the
  identifiers and timestamps the handler draws) to a response and the store afterwards.  A
  handler that answers with an error after an earlier statement has already been executed
  returns the store as that statement left it, as the code does (no transaction spans several
  statements).  The socket pushes (\<^verbatim>\<open>io.emit\<close>) never touch the store and are left out.
\<close>

subsection \<open>Request bodies\<close>

text \<open>
  A parsed JSON body is a finite map from keys to JSON values; a key that is absent reads as
  \<^verbatim>\<open>undefined\<close>.  Numbers are taken as rationals (the rounding of doubles is not
  modelled); arrays and objects, which no modelled validator accepts, are one value.
\<close>

datatype json = JNull | JBool bool | JNum rat | JStr string | JOther

type_synonym body = "string \<Rightarrow> json option"

text \<open>What a field of a parsed update carries: \<^verbatim>\<open>undefined\<close> or a value.\<close>

datatype 'a upd = Keep | Set 'a

datatype error_code =
    VALIDATION_ERROR
  | PROPERTY_NOT_FOUND
  | BOOKING_NOT_FOUND
  | FORBIDDEN_ACCESS
  | NO_UPDATE_FIELDS
  | BOOKING_NOT_COMPLETED
  | REVIEW_ALREADY_EXISTS
  | INTERNAL_SERVER_ERROR

fun http_status :: "error_code \<Rightarrow> nat" where
  "http_status VALIDATION_ERROR = 400"
| "http_status PROPERTY_NOT_FOUND = 404"
| "http_status BOOKING_NOT_FOUND = 404"
| "http_status FORBIDDEN_ACCESS = 403"
| "http_status NO_UPDATE_FIELDS = 400"
| "http_status BOOKING_NOT_COMPLETED = 400"
| "http_status REVIEW_ALREADY_EXISTS = 400"
| "http_status INTERNAL_SERVER_ERROR = 500"

subsection \<open>Rows of the tables\<close>

text \<open>
  The status column is TEXT; every write of it goes through
  \<^verbatim>\<open>z.enum(['pending', 'confirmed', 'declined', 'cancelled', 'completed'])\<close>, so the stored
  values are the five of the enum.
\<close>

datatype booking_status = Pending | Confirmed | Declined | Cancelled | Completed

fun status_text :: "booking_status \<Rightarrow> string" where
  "status_text Pending = ''pending''"
| "status_text Confirmed = ''confirmed''"
| "status_text Declined = ''declined''"
| "status_text Cancelled = ''cancelled''"
| "status_text Completed = ''completed''"

definition status_enum :: "string \<Rightarrow> booking_status option" where
  "status_enum s =
     (if s = ''pending'' then Some Pending
      else if s = ''confirmed'' then Some Confirmed
      else if s = ''declined'' then Some Declined
      else if s = ''cancelled'' then Some Cancelled
      else if s = ''completed'' then Some Completed
      else None)"

text \<open>
  \<^verbatim>\<open>interface User\<close>: the row \<^verbatim>\<open>authenticateToken\<close> attaches to the request, and of the
  table \<^verbatim>\<open>users\<close> the columns that the modelled handlers read.
\<close>

record user =
  user_id :: string
  email :: string
  name :: string
  role :: string

text \<open>Of a property the columns that the modelled handlers read.\<close>

record property =
  pr_property_id :: string
  pr_host_id :: string
  pr_title :: string
  pr_city :: string
  pr_neighborhood :: "string option"
  pr_property_type :: string
  pr_guest_capacity :: int
  pr_amenities :: "string option"
  pr_base_price_per_night :: rat
  pr_is_active :: bool
  pr_created_at :: string

record availability =
  av_availability_id :: string
  av_property_id :: string
  av_date :: string
  av_is_available :: bool
  av_price_override :: "rat option"

record booking =
  bk_booking_id :: string
  bk_property_id :: string
  bk_guest_id :: string
  bk_host_id :: string
  bk_check_in :: string
  bk_check_out :: string
  bk_guest_count :: int
  bk_total_price :: rat
  bk_service_fee :: rat
  bk_special_requests :: "string option"
  bk_status :: booking_status
  bk_created_at :: string
  bk_updated_at :: string

record conversation =
  cv_conversation_id :: string
  cv_booking_id :: string
  cv_guest_id :: string
  cv_host_id :: string
  cv_created_at :: string
  cv_updated_at :: string

record review =
  rv_review_id :: string
  rv_booking_id :: string
  rv_property_id :: string
  rv_reviewer_id :: string
  rv_host_id :: string
  rv_cleanliness_rating :: int
  rv_accuracy_rating :: int
  rv_communication_rating :: int
  rv_location_rating :: int
  rv_check_in_rating :: int
  rv_value_rating :: int
  rv_overall_rating :: int
  rv_comment :: "string option"
  rv_created_at :: string
  rv_updated_at :: string

record notification =
  nt_notification_id :: string
  nt_user_id :: string
  nt_type :: string
  nt_title :: string
  nt_message :: string
  nt_related_entity_type :: "string option"
  nt_related_entity_id :: "string option"
  nt_is_read :: bool
  nt_created_at :: string

text \<open>The store: one list of rows per table, in insertion order.\<close>

record db =
  users :: "user list"
  properties :: "property list"
  property_availability :: "availability list"
  bookings :: "booking list"
  conversations :: "conversation list"
  reviews :: "review list"
  notifications :: "notification list"

subsection \<open>Queries by key\<close>

definition user_exists :: "db \<Rightarrow> string \<Rightarrow> bool" where
  "user_exists d uid = (uid \<in> set (map user_id (users d)))"

definition find_property :: "db \<Rightarrow> string \<Rightarrow> property option" where
  "find_property d pid = find (\<lambda>p. pr_property_id p = pid) (properties d)"

definition find_booking :: "db \<Rightarrow> string \<Rightarrow> booking option" where
  "find_booking d bid = find (\<lambda>b. bk_booking_id b = bid) (bookings d)"

subsection \<open>Inserts: primary key and foreign keys of the schema\<close>

text \<open>
  An INSERT that repeats a primary key or whose REFERENCES column names no row raises in the
  driver; the model returns \<open>None\<close> and the handler's \<^verbatim>\<open>catch\<close> answers 500.
\<close>

text \<open>
  The ranges of the database's integer types: INTEGER columns and the parameters compared
  with them are 32 bits wide, LIMIT and OFFSET are 64 bits wide.  A value outside the range
  makes the statement fail.
\<close>

definition int4 :: "int \<Rightarrow> bool" where
  "int4 n = (- 2147483648 \<le> n \<and> n \<le> 2147483647)"

definition int8 :: "int \<Rightarrow> bool" where
  "int8 n = (- 9223372036854775808 \<le> n \<and> n \<le> 9223372036854775807)"

definition insert_booking :: "db \<Rightarrow> booking \<Rightarrow> db option" where
  "insert_booking d b =
     (if bk_booking_id b \<in> set (map bk_booking_id (bookings d)) then None
      else if int4 (bk_guest_count b) = False then None
      else if find_property d (bk_property_id b) = None then None
      else if \<not> user_exists d (bk_guest_id b) then None
      else if \<not> user_exists d (bk_host_id b) then None
      else Some (d\<lparr>bookings := bookings d @ [b]\<rparr>))"

definition insert_conversation :: "db \<Rightarrow> conversation \<Rightarrow> db option" where
  "insert_conversation d c =
     (if cv_conversation_id c \<in> set (map cv_conversation_id (conversations d)) then None
      else if find_booking d (cv_booking_id c) = None then None
      else if \<not> user_exists d (cv_guest_id c) then None
      else if \<not> user_exists d (cv_host_id c) then None
      else Some (d\<lparr>conversations := conversations d @ [c]\<rparr>))"

definition insert_notification :: "db \<Rightarrow> notification \<Rightarrow> db option" where
  "insert_notification d n =
     (if nt_notification_id n \<in> set (map nt_notification_id (notifications d)) then None
      else if \<not> user_exists d (nt_user_id n) then None
      else Some (d\<lparr>notifications := notifications d @ [n]\<rparr>))"

definition insert_review :: "db \<Rightarrow> review \<Rightarrow> db option" where
  "insert_review d r =
     (if rv_review_id r \<in> set (map rv_review_id (reviews d)) then None
      else if find_booking d (rv_booking_id r) = None then None
      else if find_property d (rv_property_id r) = None then None
      else if \<not> user_exists d (rv_reviewer_id r) then None
      else if \<not> user_exists d (rv_host_id r) then None
      else Some (d\<lparr>reviews := reviews d @ [r]\<rparr>))"

subsection \<open>Validators of \<^verbatim>\<open>schema.ts\<close>\<close>

text \<open>
  Each validator returns \<open>None\<close> where zod throws.  \<^verbatim>\<open>z.coerce.date()\<close> builds a JavaScript
  \<^verbatim>\<open>Date\<close> from whatever it is given and the driver writes that date into the TEXT column;
  both belong to the platform, so the composition is the parameter \<open>coerce_date\<close> of the
  schemas that use it (\<open>None\<close>: Invalid Date).  The length that \<^verbatim>\<open>min\<close> and \<^verbatim>\<open>max\<close>
  bound is the length of the character list.
\<close>

definition is_int :: "rat \<Rightarrow> bool" where
  "is_int q = (of_int \<lfloor>q\<rfloor> = q)"

definition z_string_optional :: "json option \<Rightarrow> string upd option" where
  "z_string_optional j =
     (case j of None \<Rightarrow> Some Keep | Some (JStr s) \<Rightarrow> Some (Set s) | Some _ \<Rightarrow> None)"

definition z_string :: "json option \<Rightarrow> string option" where
  "z_string j = (case j of Some (JStr s) \<Rightarrow> Some s | _ \<Rightarrow> None)"

definition z_string_min1 :: "json option \<Rightarrow> string option" where
  "z_string_min1 j = (case j of Some (JStr s) \<Rightarrow> (if 1 \<le> length s then Some s else None) | _ \<Rightarrow> None)"

definition z_string_max_nullable_optional :: "nat \<Rightarrow> json option \<Rightarrow> string option upd option" where
  "z_string_max_nullable_optional n j =
     (case j of
        None \<Rightarrow> Some Keep
      | Some JNull \<Rightarrow> Some (Set None)
      | Some (JStr s) \<Rightarrow> (if length s \<le> n then Some (Set (Some s)) else None)
      | Some _ \<Rightarrow> None)"

definition z_int_positive :: "json option \<Rightarrow> int option" where
  "z_int_positive j =
     (case j of Some (JNum q) \<Rightarrow> (if is_int q \<and> 0 < q then Some \<lfloor>q\<rfloor> else None) | _ \<Rightarrow> None)"

definition z_number_nonnegative :: "json option \<Rightarrow> rat option" where
  "z_number_nonnegative j = (case j of Some (JNum q) \<Rightarrow> (if 0 \<le> q then Some q else None) | _ \<Rightarrow> None)"

definition z_status_enum :: "json option \<Rightarrow> booking_status option" where
  "z_status_enum j = (case j of Some (JStr s) \<Rightarrow> status_enum s | _ \<Rightarrow> None)"

definition z_date :: "(json \<Rightarrow> string option) \<Rightarrow> json option \<Rightarrow> string option" where
  "z_date coerce_date j = (case j of None \<Rightarrow> None | Some v \<Rightarrow> coerce_date v)"

definition optional :: "(json option \<Rightarrow> 'a option) \<Rightarrow> json option \<Rightarrow> 'a upd option" where
  "optional v j = (case j of None \<Rightarrow> Some Keep | Some _ \<Rightarrow> map_option Set (v j))"

definition upd_default :: "'a \<Rightarrow> 'a upd \<Rightarrow> 'a" where
  "upd_default a u = (case u of Keep \<Rightarrow> a | Set x \<Rightarrow> x)"

record create_booking_input =
  cb_property_id :: string
  cb_guest_id :: "string upd"
  cb_check_in :: string
  cb_check_out :: string
  cb_guest_count :: int
  cb_total_price :: rat
  cb_service_fee :: rat
  cb_special_requests :: "string option upd"
  cb_status :: booking_status

definition createBookingInputSchema ::
  "(json \<Rightarrow> string option) \<Rightarrow> body \<Rightarrow> create_booking_input option" where
  "createBookingInputSchema coerce_date b = do {
      pid \<leftarrow> z_string_min1 (b ''property_id'');
      gid \<leftarrow> optional z_string_min1 (b ''guest_id'');
      ci \<leftarrow> z_date coerce_date (b ''check_in'');
      co \<leftarrow> z_date coerce_date (b ''check_out'');
      gc \<leftarrow> z_int_positive (b ''guest_count'');
      tp \<leftarrow> z_number_nonnegative (b ''total_price'');
      sf \<leftarrow> z_number_nonnegative (b ''service_fee'');
      sr \<leftarrow> z_string_max_nullable_optional 500 (b ''special_requests'');
      st \<leftarrow> optional z_status_enum (b ''status'');
      Some \<lparr>cb_property_id = pid, cb_guest_id = gid, cb_check_in = ci, cb_check_out = co,
              cb_guest_count = gc, cb_total_price = tp, cb_service_fee = sf,
              cb_special_requests = sr, cb_status = upd_default Pending st\<rparr>
     }"

record update_booking_input =
  ub_property_id :: "string upd"
  ub_guest_id :: "string upd"
  ub_host_id :: "string upd"
  ub_check_in :: "string upd"
  ub_check_out :: "string upd"
  ub_guest_count :: "int upd"
  ub_total_price :: "rat upd"
  ub_service_fee :: "rat upd"
  ub_special_requests :: "string option upd"
  ub_status :: "booking_status upd"

definition updateBookingInputSchema ::
  "(json \<Rightarrow> string option) \<Rightarrow> body \<Rightarrow> update_booking_input option" where
  "updateBookingInputSchema coerce_date b = do {
      bid \<leftarrow> z_string (b ''booking_id'');
      pid \<leftarrow> z_string_optional (b ''property_id'');
      gid \<leftarrow> z_string_optional (b ''guest_id'');
      hid \<leftarrow> z_string_optional (b ''host_id'');
      ci \<leftarrow> optional (z_date coerce_date) (b ''check_in'');
      co \<leftarrow> optional (z_date coerce_date) (b ''check_out'');
      gc \<leftarrow> optional z_int_positive (b ''guest_count'');
      tp \<leftarrow> optional z_number_nonnegative (b ''total_price'');
      sf \<leftarrow> optional z_number_nonnegative (b ''service_fee'');
      sr \<leftarrow> z_string_max_nullable_optional 500 (b ''special_requests'');
      st \<leftarrow> optional z_status_enum (b ''status'');
      Some \<lparr>ub_property_id = pid, ub_guest_id = gid, ub_host_id = hid, ub_check_in = ci,
              ub_check_out = co, ub_guest_count = gc, ub_total_price = tp, ub_service_fee = sf,
              ub_special_requests = sr, ub_status = st\<rparr>
     }"

subsection \<open>POST /api/bookings\<close>

text \<open>
  \<open>n1\<close>, \<open>n2\<close>, \<open>n3\<close> are the three \<^verbatim>\<open>nanoid()\<close> draws and \<open>now\<close> the clock reading.  The
  property is looked up by id only (\<^verbatim>\<open>SELECT host_id FROM properties WHERE property_id = $1\<close>).
\<close>

definition create_booking ::
  "(json \<Rightarrow> string option) \<Rightarrow> db \<Rightarrow> user \<Rightarrow> body \<Rightarrow> string \<Rightarrow> string \<Rightarrow> string \<Rightarrow> string
     \<Rightarrow> (error_code + booking) \<times> db" where
  "create_booking coerce_date d actor req n1 n2 n3 now =
     (case createBookingInputSchema coerce_date (req(''guest_id'' \<mapsto> JStr (user_id actor))) of
        None \<Rightarrow> (Inl VALIDATION_ERROR, d)
      | Some bookingData \<Rightarrow>
         (case find_property d (cb_property_id bookingData) of
            None \<Rightarrow> (Inl PROPERTY_NOT_FOUND, d)
          | Some p \<Rightarrow>
             (let host_id = pr_host_id p;
                  booking_id = ''book_'' @ n1;
                  guest_id = upd_default [] (cb_guest_id bookingData);
                  newBooking =
                    \<lparr>bk_booking_id = booking_id, bk_property_id = cb_property_id bookingData,
                     bk_guest_id = guest_id, bk_host_id = host_id,
                     bk_check_in = cb_check_in bookingData, bk_check_out = cb_check_out bookingData,
                     bk_guest_count = cb_guest_count bookingData,
                     bk_total_price = cb_total_price bookingData,
                     bk_service_fee = cb_service_fee bookingData,
                     bk_special_requests = upd_default None (cb_special_requests bookingData),
                     bk_status = cb_status bookingData,
                     bk_created_at = now, bk_updated_at = now\<rparr>
              in case insert_booking d newBooking of
                   None \<Rightarrow> (Inl INTERNAL_SERVER_ERROR, d)
                 | Some d1 \<Rightarrow>
                    (case insert_conversation d1
                            \<lparr>cv_conversation_id = ''conv_'' @ n2, cv_booking_id = booking_id,
                             cv_guest_id = guest_id, cv_host_id = host_id,
                             cv_created_at = now, cv_updated_at = now\<rparr> of
                       None \<Rightarrow> (Inl INTERNAL_SERVER_ERROR, d1)
                     | Some d2 \<Rightarrow>
                        (case insert_notification d2
                                \<lparr>nt_notification_id = ''not_'' @ n3, nt_user_id = host_id,
                                 nt_type = ''booking_request'', nt_title = ''New Booking Request'',
                                 nt_message = ''You have a new booking request from '' @ name actor,
                                 nt_related_entity_type = Some ''booking'',
                                 nt_related_entity_id = Some booking_id,
                                 nt_is_read = False, nt_created_at = now\<rparr> of
                           None \<Rightarrow> (Inl INTERNAL_SERVER_ERROR, d2)
                         | Some d3 \<Rightarrow> (Inr newBooking, d3))))))"

subsection \<open>PATCH /api/bookings/:booking_id\<close>

definition no_update_fields :: "update_booking_input \<Rightarrow> bool" where
  "no_update_fields u =
     (ub_property_id u = Keep \<and> ub_guest_id u = Keep \<and> ub_host_id u = Keep \<and>
      ub_check_in u = Keep \<and> ub_check_out u = Keep \<and> ub_guest_count u = Keep \<and>
      ub_total_price u = Keep \<and> ub_service_fee u = Keep \<and> ub_special_requests u = Keep \<and>
      ub_status u = Keep)"

definition apply_update :: "update_booking_input \<Rightarrow> string \<Rightarrow> booking \<Rightarrow> booking" where
  "apply_update u now b =
     \<lparr>bk_booking_id = bk_booking_id b,
      bk_property_id = upd_default (bk_property_id b) (ub_property_id u),
      bk_guest_id = upd_default (bk_guest_id b) (ub_guest_id u),
      bk_host_id = upd_default (bk_host_id b) (ub_host_id u),
      bk_check_in = upd_default (bk_check_in b) (ub_check_in u),
      bk_check_out = upd_default (bk_check_out b) (ub_check_out u),
      bk_guest_count = upd_default (bk_guest_count b) (ub_guest_count u),
      bk_total_price = upd_default (bk_total_price b) (ub_total_price u),
      bk_service_fee = upd_default (bk_service_fee b) (ub_service_fee u),
      bk_special_requests = upd_default (bk_special_requests b) (ub_special_requests u),
      bk_status = upd_default (bk_status b) (ub_status u),
      bk_created_at = bk_created_at b,
      bk_updated_at = now\<rparr>"

text \<open>
  The UPDATE statement: the REFERENCES columns it assigns must name existing rows, and a
  \<^verbatim>\<open>guest_count\<close> it assigns must fit the INTEGER column.
\<close>

definition update_references_ok :: "db \<Rightarrow> update_booking_input \<Rightarrow> bool" where
  "update_references_ok d u =
     ((case ub_property_id u of Keep \<Rightarrow> True | Set p \<Rightarrow> find_property d p \<noteq> None) \<and>
      (case ub_guest_id u of Keep \<Rightarrow> True | Set g \<Rightarrow> user_exists d g) \<and>
      (case ub_host_id u of Keep \<Rightarrow> True | Set h \<Rightarrow> user_exists d h))"

definition update_in_range :: "update_booking_input \<Rightarrow> bool" where
  "update_in_range u = (case ub_guest_count u of Keep \<Rightarrow> True | Set g \<Rightarrow> int4 g)"

definition update_booking_row :: "db \<Rightarrow> string \<Rightarrow> update_booking_input \<Rightarrow> string \<Rightarrow> db option" where
  "update_booking_row d bid u now =
     (if update_references_ok d u \<and> update_in_range u
      then Some (d\<lparr>bookings :=
                    map (\<lambda>b. if bk_booking_id b = bid then apply_update u now b else b) (bookings d)\<rparr>)
      else None)"

text \<open>
  \<^verbatim>\<open>notificationData\<close>: addressee, type, title and message, by the new status; none for
  \<^verbatim>\<open>pending\<close> and \<^verbatim>\<open>completed\<close>.
\<close>

fun notificationData :: "user \<Rightarrow> booking \<Rightarrow> booking_status \<Rightarrow> (string \<times> string \<times> string \<times> string) option" where
  "notificationData actor cur Confirmed =
     Some (bk_guest_id cur, ''booking_confirmed'', ''Booking Confirmed'',
           ''Your booking has been confirmed by the host'')"
| "notificationData actor cur Declined =
     Some (bk_guest_id cur, ''booking_declined'', ''Booking Declined'',
           ''Your booking request has been declined'')"
| "notificationData actor cur Cancelled =
     Some (if user_id actor = bk_guest_id cur then bk_host_id cur else bk_guest_id cur,
           ''booking_cancelled'', ''Booking Cancelled'', ''A booking has been cancelled'')"
| "notificationData actor cur Pending = None"
| "notificationData actor cur Completed = None"

definition status_change_notification ::
  "db \<Rightarrow> user \<Rightarrow> booking \<Rightarrow> booking_status upd \<Rightarrow> string \<Rightarrow> string \<Rightarrow> db option" where
  "status_change_notification d actor cur st nid now =
     (case st of
        Keep \<Rightarrow> Some d
      | Set s \<Rightarrow>
         (if s = bk_status cur then Some d
          else case notificationData actor cur s of
                 None \<Rightarrow> Some d
               | Some (uid, ty, title, msg) \<Rightarrow>
                  (if uid = [] then Some d
                   else insert_notification d
                          \<lparr>nt_notification_id = ''not_'' @ nid, nt_user_id = uid, nt_type = ty,
                           nt_title = title, nt_message = msg,
                           nt_related_entity_type = Some ''booking'',
                           nt_related_entity_id = Some (bk_booking_id cur),
                           nt_is_read = False, nt_created_at = now\<rparr>)))"

text \<open>
  No branch of the handler compares the requested status with the current one except to
  decide whether a notification is written.  \<open>now\<close> and \<open>now2\<close> are its two clock readings.
\<close>

definition update_booking ::
  "(json \<Rightarrow> string option) \<Rightarrow> db \<Rightarrow> user \<Rightarrow> string \<Rightarrow> body \<Rightarrow> string \<Rightarrow> string \<Rightarrow> string
     \<Rightarrow> (error_code + booking) \<times> db" where
  "update_booking coerce_date d actor booking_id req nid now now2 =
     (case find_booking d booking_id of
        None \<Rightarrow> (Inl BOOKING_NOT_FOUND, d)
      | Some currentBooking \<Rightarrow>
         (if role actor \<noteq> ''admin'' \<and> bk_guest_id currentBooking \<noteq> user_id actor
               \<and> bk_host_id currentBooking \<noteq> user_id actor
          then (Inl FORBIDDEN_ACCESS, d)
          else case updateBookingInputSchema coerce_date (req(''booking_id'' \<mapsto> JStr booking_id)) of
                 None \<Rightarrow> (Inl VALIDATION_ERROR, d)
               | Some updateData \<Rightarrow>
                  (if no_update_fields updateData then (Inl NO_UPDATE_FIELDS, d)
                   else case update_booking_row d booking_id updateData now of
                          None \<Rightarrow> (Inl INTERNAL_SERVER_ERROR, d)
                        | Some d1 \<Rightarrow>
                           (case status_change_notification d1 actor currentBooking
                                   (ub_status updateData) nid now2 of
                              None \<Rightarrow> (Inl INTERNAL_SERVER_ERROR, d1)
                            | Some d2 \<Rightarrow> (Inr (apply_update updateData now currentBooking), d2)))))"

subsection \<open>POST /api/bookings/:booking_id/reviews\<close>

definition z_rating :: "json option \<Rightarrow> int option" where
  "z_rating j =
     (case j of Some (JNum q) \<Rightarrow> (if is_int q \<and> 1 \<le> q \<and> q \<le> 5 then Some \<lfloor>q\<rfloor> else None)
      | _ \<Rightarrow> None)"

record create_review_input =
  cr_booking_id :: string
  cr_property_id :: string
  cr_reviewer_id :: string
  cr_host_id :: string
  cr_cleanliness_rating :: int
  cr_accuracy_rating :: int
  cr_communication_rating :: int
  cr_location_rating :: int
  cr_check_in_rating :: int
  cr_value_rating :: int
  cr_overall_rating :: int
  cr_comment :: "string option upd"

definition createReviewInputSchema :: "body \<Rightarrow> create_review_input option" where
  "createReviewInputSchema b = do {
      bid \<leftarrow> z_string_min1 (b ''booking_id'');
      pid \<leftarrow> z_string_min1 (b ''property_id'');
      rid \<leftarrow> z_string_min1 (b ''reviewer_id'');
      hid \<leftarrow> z_string_min1 (b ''host_id'');
      cl \<leftarrow> z_rating (b ''cleanliness_rating'');
      ac \<leftarrow> z_rating (b ''accuracy_rating'');
      cm \<leftarrow> z_rating (b ''communication_rating'');
      lo \<leftarrow> z_rating (b ''location_rating'');
      ci \<leftarrow> z_rating (b ''check_in_rating'');
      va \<leftarrow> z_rating (b ''value_rating'');
      ov \<leftarrow> z_rating (b ''overall_rating'');
      co \<leftarrow> z_string_max_nullable_optional 1000 (b ''comment'');
      Some \<lparr>cr_booking_id = bid, cr_property_id = pid, cr_reviewer_id = rid, cr_host_id = hid,
            cr_cleanliness_rating = cl, cr_accuracy_rating = ac, cr_communication_rating = cm,
            cr_location_rating = lo, cr_check_in_rating = ci, cr_value_rating = va,
            cr_overall_rating = ov, cr_comment = co\<rparr>
     }"

text \<open>
  The order of the checks is the handler's: booking, guest, status, existing review, and
  only then the body.
\<close>

definition create_review ::
  "db \<Rightarrow> user \<Rightarrow> string \<Rightarrow> body \<Rightarrow> string \<Rightarrow> string \<Rightarrow> string \<Rightarrow> (error_code + review) \<times> db" where
  "create_review d actor booking_id req n1 n2 now =
     (case find_booking d booking_id of
        None \<Rightarrow> (Inl BOOKING_NOT_FOUND, d)
      | Some booking \<Rightarrow>
         (if bk_guest_id booking \<noteq> user_id actor then (Inl FORBIDDEN_ACCESS, d)
          else if bk_status booking \<noteq> Completed then (Inl BOOKING_NOT_COMPLETED, d)
          else if 0 < length (filter (\<lambda>r. rv_booking_id r = booking_id) (reviews d))
               then (Inl REVIEW_ALREADY_EXISTS, d)
          else case createReviewInputSchema
                      (req(''booking_id'' \<mapsto> JStr booking_id,
                           ''property_id'' \<mapsto> JStr (bk_property_id booking),
                           ''reviewer_id'' \<mapsto> JStr (user_id actor),
                           ''host_id'' \<mapsto> JStr (bk_host_id booking))) of
                 None \<Rightarrow> (Inl VALIDATION_ERROR, d)
               | Some reviewData \<Rightarrow>
                  (let review_id = ''rev_'' @ n1;
                       newReview =
                         \<lparr>rv_review_id = review_id, rv_booking_id = booking_id,
                          rv_property_id = cr_property_id reviewData,
                          rv_reviewer_id = cr_reviewer_id reviewData,
                          rv_host_id = cr_host_id reviewData,
                          rv_cleanliness_rating = cr_cleanliness_rating reviewData,
                          rv_accuracy_rating = cr_accuracy_rating reviewData,
                          rv_communication_rating = cr_communication_rating reviewData,
                          rv_location_rating = cr_location_rating reviewData,
                          rv_check_in_rating = cr_check_in_rating reviewData,
                          rv_value_rating = cr_value_rating reviewData,
                          rv_overall_rating = cr_overall_rating reviewData,
                          rv_comment = upd_default None (cr_comment reviewData),
                          rv_created_at = now, rv_updated_at = now\<rparr>
                   in case insert_review d newReview of
                        None \<Rightarrow> (Inl INTERNAL_SERVER_ERROR, d)
                      | Some d1 \<Rightarrow>
                         (case insert_notification d1
                                 \<lparr>nt_notification_id = ''not_'' @ n2, nt_user_id = bk_host_id booking,
                                  nt_type = ''review_received'', nt_title = ''New Review'',
                                  nt_message = ''You received a new review from '' @ name actor,
                                  nt_related_entity_type = Some ''review'',
                                  nt_related_entity_id = Some review_id,
                                  nt_is_read = False, nt_created_at = now\<rparr> of
                            None \<Rightarrow> (Inl INTERNAL_SERVER_ERROR, d1)
                          | Some d2 \<Rightarrow> (Inr newReview, d2)))))"

subsection \<open>GET /api/properties/:property_id\<close>

definition get_property :: "db \<Rightarrow> string \<Rightarrow> error_code + property" where
  "get_property d property_id =
     (case find_property d property_id of
        None \<Rightarrow> Inl PROPERTY_NOT_FOUND
      | Some p \<Rightarrow> Inr p)"

subsection \<open>GET /api/properties\<close>

text \<open>
  Comparison of two TEXT values (the operands of BETWEEN and of ORDER BY): by character
  code, position by position, a proper prefix first.
\<close>

fun text_le :: "string \<Rightarrow> string \<Rightarrow> bool" where
  "text_le [] t = True"
| "text_le (a # s) [] = False"
| "text_le (a # s) (b # t) =
     ((of_char a :: nat) < of_char b \<or> (a = b \<and> text_le s t))"

text \<open>
  ILIKE: \<^verbatim>\<open>%\<close> stands for any run of characters, \<^verbatim>\<open>_\<close> for one character, a backslash
  makes the next character literal; letters A to Z match regardless of case.  The handler's
  patterns end in \<^verbatim>\<open>%\<close>, so a pattern never ends in a lone backslash.
\<close>

fun like :: "string \<Rightarrow> string \<Rightarrow> bool" where
  "like [] s = (s = [])"
| "like (p # ps) [] = (p = CHR ''%'' \<and> like ps [])"
| "like (p # ps) (c # cs) =
     (if p = CHR ''%'' then like ps (c # cs) \<or> like (p # ps) cs
      else if p = CHR ''_'' then like ps cs
      else if p = CHR 0x5C then (case ps of [] \<Rightarrow> False | q # qs \<Rightarrow> q = c \<and> like qs cs)
      else p = c \<and> like ps cs)"

definition lower :: "char \<Rightarrow> char" where
  "lower c = (let n = (of_char c :: nat) in if 65 \<le> n \<and> n \<le> 90 then char_of (n + 32) else c)"

definition ilike :: "string \<Rightarrow> string \<Rightarrow> bool" where
  "ilike s pat = like (map lower pat) (map lower s)"

text \<open>
  \<^verbatim>\<open>searchParams\<close>, after the coercions of the handler: a string parameter is absent or a
  string, \<^verbatim>\<open>guests\<close> and the prices are absent when missing or not a number, and
  \<^verbatim>\<open>limit\<close> and \<^verbatim>\<open>offset\<close> are \<open>None\<close> when \<^verbatim>\<open>parseInt\<close> gives NaN.
\<close>

record search_params =
  sp_location :: "string option"
  sp_check_in :: "string option"
  sp_check_out :: "string option"
  sp_guests :: "int option"
  sp_price_min :: "rat option"
  sp_price_max :: "rat option"
  sp_property_type :: "string option"
  sp_amenities :: "string option"
  sp_sort_by :: "string option"
  sp_limit :: "int option"
  sp_offset :: "int option"

record search_response =
  sr_properties :: "property list"
  sr_total_count :: nat

text \<open>The subquery of the date filter: the properties with a blocked date in the range.\<close>

definition blocked_property_ids :: "db \<Rightarrow> string \<Rightarrow> string \<Rightarrow> string list" where
  "blocked_property_ids d check_in check_out =
     remdups (map av_property_id
       (filter (\<lambda>a. (text_le check_in (av_date a) \<and> text_le (av_date a) check_out)
                     \<and> av_is_available a = False)
               (property_availability d)))"

text \<open>
  The WHERE clause the handler builds.  A condition is added when its parameter is truthy;
  a NULL column makes its ILIKE condition unknown, which keeps the row out.
\<close>

definition search_where :: "db \<Rightarrow> search_params \<Rightarrow> property \<Rightarrow> bool" where
  "search_where d sp p =
     (pr_is_active p = True
      \<and> (case sp_location sp of
            Some l \<Rightarrow>
              (if l \<noteq> []
               then ilike (pr_city p) (''%'' @ l @ ''%'')
                    \<or> (case pr_neighborhood p of None \<Rightarrow> False
                        | Some n \<Rightarrow> ilike n (''%'' @ l @ ''%''))
               else True)
          | None \<Rightarrow> True)
      \<and> (case sp_guests sp of Some g \<Rightarrow> (if g \<noteq> 0 then g \<le> pr_guest_capacity p else True)
          | None \<Rightarrow> True)
      \<and> (case sp_price_min sp of
            Some m \<Rightarrow> (if m \<noteq> 0 then m \<le> pr_base_price_per_night p else True)
          | None \<Rightarrow> True)
      \<and> (case sp_price_max sp of
            Some m \<Rightarrow> (if m \<noteq> 0 then pr_base_price_per_night p \<le> m else True)
          | None \<Rightarrow> True)
      \<and> (case sp_property_type sp of
            Some t \<Rightarrow> (if t \<noteq> [] then pr_property_type p = t else True)
          | None \<Rightarrow> True)
      \<and> (case sp_amenities sp of
            Some a \<Rightarrow>
              (if a \<noteq> []
               then (case pr_amenities p of None \<Rightarrow> False
                     | Some am \<Rightarrow> ilike am (''%'' @ a @ ''%''))
               else True)
          | None \<Rightarrow> True)
      \<and> (case (sp_check_in sp, sp_check_out sp) of
            (Some ci, Some co) \<Rightarrow>
              (if ci \<noteq> [] \<and> co \<noteq> []
               then pr_property_id p \<notin> set (blocked_property_ids d ci co)
               else True)
          | _ \<Rightarrow> True))"

text \<open>
  ORDER BY: SQL leaves the order of rows with equal keys open; the model takes the stable
  one (insertion sort).
\<close>

fun insert_by :: "('a \<Rightarrow> 'a \<Rightarrow> bool) \<Rightarrow> 'a \<Rightarrow> 'a list \<Rightarrow> 'a list" where
  "insert_by le x [] = [x]"
| "insert_by le x (y # ys) = (if le x y then x # y # ys else y # insert_by le x ys)"

definition order_by :: "('a \<Rightarrow> 'a \<Rightarrow> bool) \<Rightarrow> 'a list \<Rightarrow> 'a list" where
  "order_by le xs = foldr (insert_by le) xs []"

definition search_order :: "string option \<Rightarrow> property \<Rightarrow> property \<Rightarrow> bool" where
  "search_order sort_by p q =
     (if sort_by = Some ''price_low_to_high''
        then pr_base_price_per_night p \<le> pr_base_price_per_night q
      else if sort_by = Some ''price_high_to_low''
        then pr_base_price_per_night q \<le> pr_base_price_per_night p
      else text_le (pr_created_at q) (pr_created_at p))"

text \<open>
  The parameters the database accepts: LIMIT and OFFSET must be numbers (not NaN), not
  negative and within 64 bits; \<^verbatim>\<open>guests\<close>, when it is added to the query, is compared with
  the INTEGER column \<^verbatim>\<open>guest_capacity\<close> and must be within 32 bits.  Otherwise the search
  statement fails and the handler answers 500 before it counts.
\<close>

definition guests_accepted :: "search_params \<Rightarrow> bool" where
  "guests_accepted sp =
     (case sp_guests sp of Some g \<Rightarrow> (if g \<noteq> 0 then int4 g else True) | None \<Rightarrow> True)"

text \<open>
  The count is a second statement,
  \<^verbatim>\<open>SELECT COUNT(*) FROM properties WHERE is_active = true\<close>, without parameters.
\<close>

definition search_properties :: "db \<Rightarrow> search_params \<Rightarrow> error_code + search_response" where
  "search_properties d sp =
     (case (sp_limit sp, sp_offset sp) of
        (Some limit, Some offset) \<Rightarrow>
          (if 0 \<le> limit \<and> int8 limit \<and> 0 \<le> offset \<and> int8 offset \<and> guests_accepted sp
           then Inr \<lparr>sr_properties =
                       take (nat limit) (drop (nat offset)
                         (order_by (search_order (sp_sort_by sp))
                            (filter (search_where d sp) (properties d)))),
                     sr_total_count = length (filter (\<lambda>p. pr_is_active p = True) (properties d))\<rparr>
           else Inl INTERNAL_SERVER_ERROR)
      | _ \<Rightarrow> Inl INTERNAL_SERVER_ERROR)"

subsection \<open>POST /api/properties/:property_id/availability\<close>

definition z_boolean_default :: "bool \<Rightarrow> json option \<Rightarrow> bool option" where
  "z_boolean_default dflt j =
     (case j of None \<Rightarrow> Some dflt | Some (JBool b) \<Rightarrow> Some b | Some _ \<Rightarrow> None)"

definition z_number_positive_nullable_optional :: "json option \<Rightarrow> rat option upd option" where
  "z_number_positive_nullable_optional j =
     (case j of
        None \<Rightarrow> Some Keep
      | Some JNull \<Rightarrow> Some (Set None)
      | Some (JNum q) \<Rightarrow> (if 0 < q then Some (Set (Some q)) else None)
      | Some _ \<Rightarrow> None)"

record create_availability_input =
  ca_property_id :: string
  ca_date :: string
  ca_is_available :: bool
  ca_price_override :: "rat option upd"

definition createPropertyAvailabilityInputSchema ::
  "(json \<Rightarrow> string option) \<Rightarrow> body \<Rightarrow> create_availability_input option" where
  "createPropertyAvailabilityInputSchema coerce_date b = do {
      pid \<leftarrow> z_string_min1 (b ''property_id'');
      dt \<leftarrow> z_date coerce_date (b ''date'');
      ia \<leftarrow> z_boolean_default True (b ''is_available'');
      po \<leftarrow> z_number_positive_nullable_optional (b ''price_override'');
      Some \<lparr>ca_property_id = pid, ca_date = dt, ca_is_available = ia, ca_price_override = po\<rparr>
     }"

text \<open>
  The unique constraints that \<^verbatim>\<open>CREATE TABLE property_availability\<close> declares: the primary
  key \<^verbatim>\<open>availability_id\<close> and no other.
\<close>

definition property_availability_unique :: "string list list" where
  "property_availability_unique = [[''availability_id'']]"

text \<open>
  \<^verbatim>\<open>INSERT ... ON CONFLICT (columns) DO UPDATE\<close> needs a unique constraint on exactly the
  named columns to arbitrate; without one the database rejects the statement.
\<close>

definition conflict_target_ok :: "string list list \<Rightarrow> string list \<Rightarrow> bool" where
  "conflict_target_ok uniques target = (0 < length (filter (\<lambda>u. set u = set target) uniques))"

definition upsert_availability :: "db \<Rightarrow> availability \<Rightarrow> (availability \<times> db) option" where
  "upsert_availability d row =
     (if \<not> conflict_target_ok property_availability_unique [''property_id'', ''date''] then None
      else case find (\<lambda>a. av_property_id a = av_property_id row \<and> av_date a = av_date row)
                  (property_availability d) of
             Some old \<Rightarrow>
               Some (old\<lparr>av_is_available := av_is_available row,
                         av_price_override := av_price_override row\<rparr>,
                     d\<lparr>property_availability :=
                         map (\<lambda>a. if av_property_id a = av_property_id row \<and> av_date a = av_date row
                                   then a\<lparr>av_is_available := av_is_available row,
                                          av_price_override := av_price_override row\<rparr>
                                   else a)
                             (property_availability d)\<rparr>)
           | None \<Rightarrow>
               (if av_availability_id row \<in> set (map av_availability_id (property_availability d))
                then None
                else if find_property d (av_property_id row) = None then None
                else Some (row, d\<lparr>property_availability := property_availability d @ [row]\<rparr>)))"

definition set_availability ::
  "(json \<Rightarrow> string option) \<Rightarrow> db \<Rightarrow> user \<Rightarrow> string \<Rightarrow> body \<Rightarrow> string
     \<Rightarrow> (error_code + availability) \<times> db" where
  "set_availability coerce_date d actor property_id req n1 =
     (case find_property d property_id of
        None \<Rightarrow> (Inl PROPERTY_NOT_FOUND, d)
      | Some p \<Rightarrow>
         (if pr_host_id p \<noteq> user_id actor \<and> role actor \<noteq> ''admin'' then (Inl FORBIDDEN_ACCESS, d)
          else case createPropertyAvailabilityInputSchema coerce_date
                      (req(''property_id'' \<mapsto> JStr property_id)) of
                 None \<Rightarrow> (Inl VALIDATION_ERROR, d)
               | Some availabilityData \<Rightarrow>
                  (case upsert_availability d
                          \<lparr>av_availability_id = ''avail_'' @ n1, av_property_id = property_id,
                           av_date = ca_date availabilityData,
                           av_is_available = ca_is_available availabilityData,
                           av_price_override = upd_default None (ca_price_override availabilityData)\<rparr> of
                     None \<Rightarrow> (Inl INTERNAL_SERVER_ERROR, d)
                   | Some (newAvailability, d1) \<Rightarrow> (Inr newAvailability, d1))))"

subsection \<open>DELETE /api/properties/:property_id\<close>

text \<open>
  The statement of the handler, after its ownership check:
  \<^verbatim>\<open>UPDATE properties SET is_active = false, updated_at = $1 WHERE property_id = $2\<close>.
\<close>

definition deactivate_property :: "db \<Rightarrow> string \<Rightarrow> db" where
  "deactivate_property d property_id =
     d\<lparr>properties :=
         map (\<lambda>p. if pr_property_id p = property_id then p\<lparr>pr_is_active := False\<rparr> else p)
             (properties d)\<rparr>"

subsection \<open>Referential integrity\<close>

text \<open>\<^verbatim>\<open>conversations.booking_id REFERENCES bookings(booking_id)\<close>, as a predicate on a store.\<close>

definition conversations_reference_bookings :: "db \<Rightarrow> bool" where
  "conversations_reference_bookings d =
     list_all (\<lambda>c. cv_booking_id c \<in> set (map bk_booking_id (bookings d))) (conversations d)"

subsection \<open>The transitions of the specification\<close>

text \<open>
  Following the words of the specification (section 4.3), not the code: the edges
  pending to confirmed, declined or cancelled, and confirmed to cancelled or completed.
\<close>

fun spec_transition :: "booking_status \<Rightarrow> booking_status \<Rightarrow> bool" where
  "spec_transition Pending Confirmed = True"
| "spec_transition Pending Declined = True"
| "spec_transition Pending Cancelled = True"
| "spec_transition Confirmed Cancelled = True"
| "spec_transition Confirmed Completed = True"
| "spec_transition _ _ = False"

subsection \<open>The seed rows of the schema file\<close>

definition seed_users :: "user list" where
  "seed_users =
     [\<lparr>user_id = ''user_001'', email = ''ahmed.ali@example.com'', name = ''Ahmed Ali'', role = ''host''\<rparr>,
      \<lparr>user_id = ''user_002'', email = ''sara.mohamed@example.com'', name = ''Sara Mohamed'', role = ''guest''\<rparr>,
      \<lparr>user_id = ''user_003'', email = ''omar.hassan@example.com'', name = ''Omar Hassan'', role = ''host''\<rparr>,
      \<lparr>user_id = ''user_004'', email = ''mariam.essa@example.com'', name = ''Mariam Essa'', role = ''guest''\<rparr>,
      \<lparr>user_id = ''user_005'', email = ''admin.ly@example.com'', name = ''Ly Admin'', role = ''admin''\<rparr>]"

definition prop_001 :: property where
  "prop_001 =
     \<lparr>pr_property_id = ''prop_001'', pr_host_id = ''user_001'',
      pr_title = ''Luxury Apartment in Tripoli'', pr_city = ''Tripoli'',
      pr_neighborhood = Some ''Al-Hadba'', pr_property_type = ''apartment'',
      pr_guest_capacity = 4,
      pr_amenities = Some ''WiFi,Air Conditioning,Balcony,Kitchen,Parking'',
      pr_base_price_per_night = 150, pr_is_active = True,
      pr_created_at = ''2023-01-20T10:00:00Z''\<rparr>"

definition prop_002 :: property where
  "prop_002 =
     \<lparr>pr_property_id = ''prop_002'', pr_host_id = ''user_001'',
      pr_title = ''Cozy Studio near Beach'', pr_city = ''Tripoli'',
      pr_neighborhood = Some ''Al-Mahatta'', pr_property_type = ''studio'',
      pr_guest_capacity = 2,
      pr_amenities = Some ''WiFi,Air Conditioning,Kitchen,TV'',
      pr_base_price_per_night = 80, pr_is_active = True,
      pr_created_at = ''2023-01-25T10:00:00Z''\<rparr>"

definition prop_003 :: property where
  "prop_003 =
     \<lparr>pr_property_id = ''prop_003'', pr_host_id = ''user_003'',
      pr_title = ''Traditional House in Benghazi'', pr_city = ''Benghazi'',
      pr_neighborhood = Some ''Al-Wahda'', pr_property_type = ''house'',
      pr_guest_capacity = 6,
      pr_amenities = Some ''WiFi,Patio,Garden,Kitchen,Washer'',
      pr_base_price_per_night = 120, pr_is_active = True,
      pr_created_at = ''2023-02-05T10:00:00Z''\<rparr>"

definition seed_properties :: "property list" where
  "seed_properties = [prop_001, prop_002, prop_003]"

definition seed_availability :: "availability list" where
  "seed_availability =
     [\<lparr>av_availability_id = ''avail_001'', av_property_id = ''prop_001'', av_date = ''2023-06-01'',
       av_is_available = True, av_price_override = None\<rparr>,
      \<lparr>av_availability_id = ''avail_002'', av_property_id = ''prop_001'', av_date = ''2023-06-02'',
       av_is_available = True, av_price_override = Some 160\<rparr>,
      \<lparr>av_availability_id = ''avail_003'', av_property_id = ''prop_001'', av_date = ''2023-06-03'',
       av_is_available = False, av_price_override = None\<rparr>,
      \<lparr>av_availability_id = ''avail_004'', av_property_id = ''prop_002'', av_date = ''2023-06-01'',
       av_is_available = True, av_price_override = None\<rparr>,
      \<lparr>av_availability_id = ''avail_005'', av_property_id = ''prop_002'', av_date = ''2023-06-02'',
       av_is_available = True, av_price_override = None\<rparr>,
      \<lparr>av_availability_id = ''avail_006'', av_property_id = ''prop_003'', av_date = ''2023-06-01'',
       av_is_available = True, av_price_override = None\<rparr>]"

definition seed_bookings :: "booking list" where
  "seed_bookings =
     [\<lparr>bk_booking_id = ''book_001'', bk_property_id = ''prop_001'', bk_guest_id = ''user_002'',
       bk_host_id = ''user_001'', bk_check_in = ''2023-06-01'', bk_check_out = ''2023-06-05'',
       bk_guest_count = 2, bk_total_price = 650, bk_service_fee = 65,
       bk_special_requests = Some ''Late check-in around 10 PM'', bk_status = Confirmed,
       bk_created_at = ''2023-05-01T10:00:00Z'', bk_updated_at = ''2023-05-01T10:00:00Z''\<rparr>,
      \<lparr>bk_booking_id = ''book_002'', bk_property_id = ''prop_003'', bk_guest_id = ''user_004'',
       bk_host_id = ''user_003'', bk_check_in = ''2023-06-10'', bk_check_out = ''2023-06-15'',
       bk_guest_count = 4, bk_total_price = 650, bk_service_fee = 65,
       bk_special_requests = Some ''Celebrating anniversary'', bk_status = Pending,
       bk_created_at = ''2023-05-15T10:00:00Z'', bk_updated_at = ''2023-05-15T10:00:00Z''\<rparr>]"

definition seed_conversations :: "conversation list" where
  "seed_conversations =
     [\<lparr>cv_conversation_id = ''conv_001'', cv_booking_id = ''book_001'', cv_guest_id = ''user_002'',
       cv_host_id = ''user_001'', cv_created_at = ''2023-05-01T10:05:00Z'',
       cv_updated_at = ''2023-05-01T10:05:00Z''\<rparr>,
      \<lparr>cv_conversation_id = ''conv_002'', cv_booking_id = ''book_002'', cv_guest_id = ''user_004'',
       cv_host_id = ''user_003'', cv_created_at = ''2023-05-15T10:05:00Z'',
       cv_updated_at = ''2023-05-15T10:05:00Z''\<rparr>]"

definition seed_reviews :: "review list" where
  "seed_reviews =
     [\<lparr>rv_review_id = ''rev_001'', rv_booking_id = ''book_001'', rv_property_id = ''prop_001'',
       rv_reviewer_id = ''user_002'', rv_host_id = ''user_001'',
       rv_cleanliness_rating = 5, rv_accuracy_rating = 5, rv_communication_rating = 5,
       rv_location_rating = 4, rv_check_in_rating = 5, rv_value_rating = 5, rv_overall_rating = 5,
       rv_comment = Some ''Amazing stay! Ahmed was a wonderful host and the apartment was exactly as described.'',
       rv_created_at = ''2023-06-06T10:00:00Z'', rv_updated_at = ''2023-06-06T10:00:00Z''\<rparr>]"

definition seed_notifications :: "notification list" where
  "seed_notifications =
     [\<lparr>nt_notification_id = ''not_001'', nt_user_id = ''user_001'', nt_type = ''booking_request'',
       nt_title = ''New Booking Request'',
       nt_message = ''You have a new booking request for Luxury Apartment in Tripoli'',
       nt_related_entity_type = Some ''booking'', nt_related_entity_id = Some ''book_001'',
       nt_is_read = False, nt_created_at = ''2023-05-01T10:00:00Z''\<rparr>,
      \<lparr>nt_notification_id = ''not_002'', nt_user_id = ''user_002'', nt_type = ''booking_confirmed'',
       nt_title = ''Booking Confirmed'',
       nt_message = ''Your booking for Luxury Apartment in Tripoli has been confirmed'',
       nt_related_entity_type = Some ''booking'', nt_related_entity_id = Some ''book_001'',
       nt_is_read = True, nt_created_at = ''2023-05-01T12:00:00Z''\<rparr>,
      \<lparr>nt_notification_id = ''not_003'', nt_user_id = ''user_003'', nt_type = ''booking_request'',
       nt_title = ''New Booking Request'',
       nt_message = ''You have a new booking request for Traditional House in Benghazi'',
       nt_related_entity_type = Some ''booking'', nt_related_entity_id = Some ''book_002'',
       nt_is_read = False, nt_created_at = ''2023-05-15T10:00:00Z''\<rparr>]"

definition seed_db :: db where
  "seed_db =
     \<lparr>users = seed_users, properties = seed_properties,
      property_availability = seed_availability, bookings = seed_bookings,
      conversations = seed_conversations, reviews = seed_reviews,
      notifications = seed_notifications\<rparr>"

text \<open>
  The seeded users as actors.  \<open>keep_text\<close> stands in for the date coercion in the
  examples below: it keeps a JSON string as it is and refuses everything else.  The
  platform's coercion is another function (it rewrites a date as a timestamp, refuses
  strings that are no dates and accepts \<^verbatim>\<open>null\<close>); the general statements hold for every
  coercion, and no example depends on the form of the dates it stores.
\<close>

definition host_001 :: user where
  "host_001 = \<lparr>user_id = ''user_001'', email = ''ahmed.ali@example.com'', name = ''Ahmed Ali'', role = ''host''\<rparr>"

definition guest_002 :: user where
  "guest_002 = \<lparr>user_id = ''user_002'', email = ''sara.mohamed@example.com'', name = ''Sara Mohamed'', role = ''guest''\<rparr>"

definition guest_004 :: user where
  "guest_004 = \<lparr>user_id = ''user_004'', email = ''mariam.essa@example.com'', name = ''Mariam Essa'', role = ''guest''\<rparr>"

definition keep_text :: "json \<Rightarrow> string option" where
  "keep_text j = (case j of JStr s \<Rightarrow> Some s | _ \<Rightarrow> None)"

text \<open>A booking request for a property, as the tests of the repository send it.\<close>

definition booking_body :: "string \<Rightarrow> body" where
  "booking_body pid =
     [''property_id'' \<mapsto> JStr pid, ''check_in'' \<mapsto> JStr ''2023-08-01'',
      ''check_out'' \<mapsto> JStr ''2023-08-05'', ''guest_count'' \<mapsto> JNum 2,
      ''total_price'' \<mapsto> JNum 500, ''service_fee'' \<mapsto> JNum 50]"

definition host_003 :: user where
  "host_003 = \<lparr>user_id = ''user_003'', email = ''omar.hassan@example.com'', name = ''Omar Hassan'', role = ''host''\<rparr>"

text \<open>The ratings and the comment of the review that the tests of the repository post.\<close>

definition review_body :: body where
  "review_body =
     [''cleanliness_rating'' \<mapsto> JNum 5, ''accuracy_rating'' \<mapsto> JNum 5,
      ''communication_rating'' \<mapsto> JNum 5, ''location_rating'' \<mapsto> JNum 4,
      ''check_in_rating'' \<mapsto> JNum 5, ''value_rating'' \<mapsto> JNum 5,
      ''overall_rating'' \<mapsto> JNum 5, ''comment'' \<mapsto> JStr ''Amazing stay! Highly recommended.'']"

text \<open>The seeded store after the host of \<^verbatim>\<open>book_002\<close> has marked it completed.\<close>

definition completed_db :: db where
  "completed_db =
     snd (update_booking keep_text seed_db host_003 ''book_002'' [''status'' \<mapsto> JStr ''completed'']
            ''n0'' ''2023-06-16T10:00:00Z'' ''2023-06-16T10:00:00Z'')"

text \<open>A search without any filter, with the handler's defaults for limit and offset.\<close>

definition no_filters :: search_params where
  "no_filters =
     \<lparr>sp_location = None, sp_check_in = None, sp_check_out = None, sp_guests = None,
      sp_price_min = None, sp_price_max = None, sp_property_type = None, sp_amenities = None,
      sp_sort_by = None, sp_limit = Some 10, sp_offset = Some 0\<rparr>"

text \<open>The availability request that the tests of the repository send for \<^verbatim>\<open>prop_001\<close>.\<close>

definition availability_body :: body where
  "availability_body =
     [''property_id'' \<mapsto> JStr ''prop_001'', ''date'' \<mapsto> JStr ''2023-07-01'',
      ''is_available'' \<mapsto> JBool True]"

subsection \<open>POST /api/bookings/:booking_id/reviews, statement by statement\<close>

text \<open>
  The handler is an asynchronous function: it gives up control at each of its four awaited
  statements (the SELECT of the booking, the SELECT of an existing review, the INSERT of the
  review, the INSERT of the notification), the server runs other requests meanwhile, and no
  transaction or lock spans the statements.  A step executes the next statement of a request
  on the store as it is then, followed by the checks the handler makes on its result.
\<close>

record review_request =
  rq_actor :: user
  rq_booking_id :: string
  rq_body :: body
  rq_n1 :: string
  rq_n2 :: string
  rq_now :: string

datatype review_progress =
    Arrived
  | Booking_checked booking
  | Review_checked booking create_review_input
  | Review_inserted booking review
  | Answered "error_code + review"

fun review_step :: "db \<Rightarrow> review_request \<Rightarrow> review_progress \<Rightarrow> review_progress \<times> db" where
  "review_step d rq Arrived =
     (case find_booking d (rq_booking_id rq) of
        None \<Rightarrow> (Answered (Inl BOOKING_NOT_FOUND), d)
      | Some booking \<Rightarrow>
         (if bk_guest_id booking \<noteq> user_id (rq_actor rq) then (Answered (Inl FORBIDDEN_ACCESS), d)
          else if bk_status booking \<noteq> Completed then (Answered (Inl BOOKING_NOT_COMPLETED), d)
          else (Booking_checked booking, d)))"
| "review_step d rq (Booking_checked booking) =
     (if 0 < length (filter (\<lambda>r. rv_booking_id r = rq_booking_id rq) (reviews d))
      then (Answered (Inl REVIEW_ALREADY_EXISTS), d)
      else case createReviewInputSchema
                  ((rq_body rq)(''booking_id'' \<mapsto> JStr (rq_booking_id rq),
                       ''property_id'' \<mapsto> JStr (bk_property_id booking),
                       ''reviewer_id'' \<mapsto> JStr (user_id (rq_actor rq)),
                       ''host_id'' \<mapsto> JStr (bk_host_id booking))) of
             None \<Rightarrow> (Answered (Inl VALIDATION_ERROR), d)
           | Some reviewData \<Rightarrow> (Review_checked booking reviewData, d))"
| "review_step d rq (Review_checked booking reviewData) =
     (let newReview =
            \<lparr>rv_review_id = ''rev_'' @ rq_n1 rq, rv_booking_id = rq_booking_id rq,
             rv_property_id = cr_property_id reviewData,
             rv_reviewer_id = cr_reviewer_id reviewData,
             rv_host_id = cr_host_id reviewData,
             rv_cleanliness_rating = cr_cleanliness_rating reviewData,
             rv_accuracy_rating = cr_accuracy_rating reviewData,
             rv_communication_rating = cr_communication_rating reviewData,
             rv_location_rating = cr_location_rating reviewData,
             rv_check_in_rating = cr_check_in_rating reviewData,
             rv_value_rating = cr_value_rating reviewData,
             rv_overall_rating = cr_overall_rating reviewData,
             rv_comment = upd_default None (cr_comment reviewData),
             rv_created_at = rq_now rq, rv_updated_at = rq_now rq\<rparr>
      in case insert_review d newReview of
           None \<Rightarrow> (Answered (Inl INTERNAL_SERVER_ERROR), d)
         | Some d1 \<Rightarrow> (Review_inserted booking newReview, d1))"
| "review_step d rq (Review_inserted booking newReview) =
     (case insert_notification d
             \<lparr>nt_notification_id = ''not_'' @ rq_n2 rq, nt_user_id = bk_host_id booking,
              nt_type = ''review_received'', nt_title = ''New Review'',
              nt_message = ''You received a new review from '' @ name (rq_actor rq),
              nt_related_entity_type = Some ''review'',
              nt_related_entity_id = Some (rv_review_id newReview),
              nt_is_read = False, nt_created_at = rq_now rq\<rparr> of
        None \<Rightarrow> (Answered (Inl INTERNAL_SERVER_ERROR), d)
      | Some d2 \<Rightarrow> (Answered (Inr newReview), d2))"
| "review_step d rq (Answered r) = (Answered r, d)"

text \<open>
  The server with several review requests in flight: the schedule names, step by step, the
  request whose next statement is executed.
\<close>

fun serve ::
  "db \<Rightarrow> (review_request \<times> review_progress) list \<Rightarrow> nat list
     \<Rightarrow> (review_request \<times> review_progress) list \<times> db" where
  "serve d rs [] = (rs, d)"
| "serve d rs (i # sched) =
     (if i < length rs
      then (case review_step d (fst (rs ! i)) (snd (rs ! i)) of
              (st, d1) \<Rightarrow> serve d1 (rs[i := (fst (rs ! i), st)]) sched)
      else serve d rs sched)"

text \<open>What a request has been answered, if it has: the error code or the id of the review.\<close>

fun answer :: "review_request \<times> review_progress \<Rightarrow> (error_code + string) option" where
  "answer (rq, Answered r) = Some (map_sum id rv_review_id r)"
| "answer (rq, st) = None"

text \<open>
  Two review requests of the guest \<^verbatim>\<open>user_004\<close> for the completed booking \<^verbatim>\<open>book_002\<close>.
\<close>

definition first_review_request :: review_request where
  "first_review_request =
     \<lparr>rq_actor = guest_004, rq_booking_id = ''book_002'', rq_body = review_body,
      rq_n1 = ''r1'', rq_n2 = ''m1'', rq_now = ''2023-06-20T10:00:00Z''\<rparr>"

definition second_review_request :: review_request where
  "second_review_request =
     \<lparr>rq_actor = guest_004, rq_booking_id = ''book_002'', rq_body = review_body,
      rq_n1 = ''r2'', rq_n2 = ''m2'', rq_now = ''2023-06-20T10:00:00Z''\<rparr>"

section \<open>Properties\<close>

subsection \<open>Updating a booking\<close>

lemma status_enum_text: "status_enum (status_text s) = Some s"
  by (cases s) (simp_all add: status_enum_def)

lemma status_enum_Some: "status_enum t = Some s \<Longrightarrow> t = status_text s"
  by (auto simp: status_enum_def split: if_splits)

lemma find_booking_map:
  assumes "\<And>b. bk_booking_id (f b) = bk_booking_id b"
  shows "find (\<lambda>b. bk_booking_id b = bid) (map (\<lambda>b. if bk_booking_id b = bid then f b else b) bs)
           = map_option f (find (\<lambda>b. bk_booking_id b = bid) bs)"
  using assms by (induction bs) auto

lemma find_booking_update_row:
  "update_booking_row d bid u now = Some d1 \<Longrightarrow>
     find_booking d1 bid = map_option (apply_update u now) (find_booking d bid)"
proof -
  have "bk_booking_id (apply_update u now b) = bk_booking_id b" for b
    by (simp add: apply_update_def)
  then show "update_booking_row d bid u now = Some d1 \<Longrightarrow> ?thesis"
    unfolding update_booking_row_def find_booking_def
    by (auto split: if_splits simp: find_booking_map)
qed

lemma insert_notification_bookings:
  "insert_notification d n = Some d' \<Longrightarrow> bookings d' = bookings d"
  by (auto simp: insert_notification_def split: if_splits)

lemma status_change_notification_bookings:
  "status_change_notification d actor cur st nid now = Some d' \<Longrightarrow> bookings d' = bookings d"
  unfolding status_change_notification_def
  by (auto split: upd.splits if_splits option.splits dest: insert_notification_bookings)

lemma schema_status_only:
  "updateBookingInputSchema cd ([''status'' \<mapsto> JStr (status_text s)](''booking_id'' \<mapsto> JStr bid)) =
     Some \<lparr>ub_property_id = Keep, ub_guest_id = Keep, ub_host_id = Keep, ub_check_in = Keep,
           ub_check_out = Keep, ub_guest_count = Keep, ub_total_price = Keep, ub_service_fee = Keep,
           ub_special_requests = Keep, ub_status = Set s\<rparr>"
  by (simp add: updateBookingInputSchema_def z_string_def z_string_optional_def optional_def
        z_string_max_nullable_optional_def z_status_enum_def status_enum_text)

lemma schema_bad_status:
  assumes "req ''status'' = Some j" and "\<forall>s. j \<noteq> JStr (status_text s)"
  shows "updateBookingInputSchema cd (req(''booking_id'' \<mapsto> JStr bid)) = None"
proof -
  have "z_status_enum (Some j) = None"
  proof (cases j)
    case (JStr t)
    then show ?thesis
      using assms(2) status_enum_Some[of t] by (cases "status_enum t") (auto simp: z_status_enum_def)
  qed (simp_all add: z_status_enum_def)
  then have "optional z_status_enum ((req(''booking_id'' \<mapsto> JStr bid)) ''status'') = None"
    using assms(1) by (simp add: optional_def)
  then show ?thesis
    by (simp add: updateBookingInputSchema_def split: Option.bind_split)
qed

lemma update_booking_status_only:
  assumes "find_booking d bid = Some cur"
    and "role actor = ''admin'' \<or> bk_guest_id cur = user_id actor \<or> bk_host_id cur = user_id actor"
  shows "find_booking (snd (update_booking cd d actor bid [''status'' \<mapsto> JStr (status_text s)] nid now now2)) bid
           = Some (cur\<lparr>bk_status := s, bk_updated_at := now\<rparr>)"
proof -
  let ?u = "\<lparr>ub_property_id = Keep, ub_guest_id = Keep, ub_host_id = Keep, ub_check_in = Keep,
           ub_check_out = Keep, ub_guest_count = Keep, ub_total_price = Keep, ub_service_fee = Keep,
           ub_special_requests = Keep, ub_status = Set s\<rparr>"
  obtain d1 where d1: "update_booking_row d bid ?u now = Some d1"
    by (simp add: update_booking_row_def update_references_ok_def update_in_range_def)
  have f1: "find_booking d1 bid = Some (apply_update ?u now cur)"
    using find_booking_update_row[OF d1] assms(1) by simp
  have au: "apply_update ?u now cur = cur\<lparr>bk_status := s, bk_updated_at := now\<rparr>"
    by (simp add: apply_update_def upd_default_def)
  show ?thesis
  proof (cases "status_change_notification d1 actor cur (Set s) nid now2")
    case None
    then show ?thesis using assms d1 f1 au
      by (auto simp: update_booking_def schema_status_only no_update_fields_def)
  next
    case (Some d2)
    then have "find_booking d2 bid = find_booking d1 bid"
      by (simp add: find_booking_def status_change_notification_bookings)
    then show ?thesis using assms d1 f1 au Some
      by (auto simp: update_booking_def schema_status_only no_update_fields_def)
  qed
qed

text \<open>
  C1 (amended).  The handler has no transition table: for a party to the booking or an
  admin, a request that carries only a status of the enum stores that status whatever the
  current one is; a status outside the enum is answered with VALIDATION_ERROR and the store
  stays as it was.
\<close>

theorem update_booking_status_unrestricted:
  assumes "find_booking d bid = Some cur"
    and "role actor = ''admin'' \<or> bk_guest_id cur = user_id actor \<or> bk_host_id cur = user_id actor"
  shows "map_option bk_status
           (find_booking (snd (update_booking cd d actor bid [''status'' \<mapsto> JStr (status_text s)] nid now now2)) bid)
           = Some s
         \<and> (\<forall>req j. req ''status'' = Some j \<and> (\<forall>t. j \<noteq> JStr (status_text t)) \<longrightarrow>
               update_booking cd d actor bid req nid now now2 = (Inl VALIDATION_ERROR, d))"
proof (intro conjI allI impI)
  show "map_option bk_status
           (find_booking (snd (update_booking cd d actor bid [''status'' \<mapsto> JStr (status_text s)] nid now now2)) bid)
           = Some s"
    using update_booking_status_only[OF assms] by simp
next
  fix req j assume "req ''status'' = Some j \<and> (\<forall>t. j \<noteq> JStr (status_text t))"
  then have "updateBookingInputSchema cd (req(''booking_id'' \<mapsto> JStr bid)) = None"
    using schema_bad_status by blast
  then show "update_booking cd d actor bid req nid now now2 = (Inl VALIDATION_ERROR, d)"
    using assms by (auto simp: update_booking_def)
qed

theorem update_booking_status_unrestricted_witness:
  "map_option bk_status
     (find_booking (snd (update_booking keep_text seed_db host_001 ''book_001''
         [''status'' \<mapsto> JStr ''declined''] ''n1'' ''t1'' ''t2'')) ''book_001'') = Some Declined
   \<and> update_booking keep_text seed_db host_001 ''book_001''
         [''status'' \<mapsto> JStr ''archived''] ''n1'' ''t1'' ''t2'' = (Inl VALIDATION_ERROR, seed_db)"
proof -
  let ?cur = "\<lparr>bk_booking_id = ''book_001'', bk_property_id = ''prop_001'', bk_guest_id = ''user_002'',
       bk_host_id = ''user_001'', bk_check_in = ''2023-06-01'', bk_check_out = ''2023-06-05'',
       bk_guest_count = 2, bk_total_price = 650, bk_service_fee = 65,
       bk_special_requests = Some ''Late check-in around 10 PM'', bk_status = Confirmed,
       bk_created_at = ''2023-05-01T10:00:00Z'', bk_updated_at = ''2023-05-01T10:00:00Z''\<rparr>"
  have h1: "find_booking seed_db ''book_001'' = Some ?cur"
    by (simp add: find_booking_def seed_db_def seed_bookings_def)
  have h2: "role host_001 = ''admin'' \<or> bk_guest_id ?cur = user_id host_001
              \<or> bk_host_id ?cur = user_id host_001"
    by (simp add: host_001_def)
  have h3: "\<forall>t. JStr ''archived'' \<noteq> JStr (status_text t)"
  proof
    fix t show "JStr ''archived'' \<noteq> JStr (status_text t)" by (cases t) simp_all
  qed
  note inst = update_booking_status_unrestricted [OF h1 h2, of keep_text Declined "''n1''" "''t1''" "''t2''"]
  from inst have "map_option bk_status
     (find_booking (snd (update_booking keep_text seed_db host_001 ''book_001''
         [''status'' \<mapsto> JStr ''declined''] ''n1'' ''t1'' ''t2'')) ''book_001'') = Some Declined"
    by simp
  moreover from inst h3 have "update_booking keep_text seed_db host_001 ''book_001''
         [''status'' \<mapsto> JStr ''archived''] ''n1'' ''t1'' ''t2'' = (Inl VALIDATION_ERROR, seed_db)"
    by simp
  ultimately show ?thesis by simp
qed

text \<open>
  C1 as stated fails: the host moves the seeded booking \<^verbatim>\<open>book_001\<close> from confirmed back to
  pending, which is no edge of the specification, and the request succeeds.
\<close>

theorem update_booking_undefined_transition_accepted: "\<not> spec_transition Confirmed Pending
   \<and> map_option bk_status (find_booking seed_db ''book_001'') = Some Confirmed
   \<and> map_sum id bk_status (fst (update_booking keep_text seed_db host_001 ''book_001''
         [''status'' \<mapsto> JStr ''pending''] ''n1'' ''t1'' ''t2'')) = Inr Pending
   \<and> map_option bk_status (find_booking (snd (update_booking keep_text seed_db host_001 ''book_001''
         [''status'' \<mapsto> JStr ''pending''] ''n1'' ''t1'' ''t2'')) ''book_001'') = Some Pending"
  by code_simp


text \<open>
  C8 (amended).  The handler checks that the actor is a party to the booking or an admin
  and nothing more: the guest of a pending booking confirms or declines it like the host or
  an admin does; an actor who is neither guest nor host nor admin gets FORBIDDEN_ACCESS and
  the store stays as it was.
\<close>

theorem update_booking_confirm_decline_by_any_party:
  assumes "find_booking d bid = Some cur"
    and "bk_status cur = Pending"
    and "s = Confirmed \<or> s = Declined"
  shows "(role actor = ''admin'' \<or> bk_guest_id cur = user_id actor \<or> bk_host_id cur = user_id actor
            \<longrightarrow> map_option bk_status
                  (find_booking (snd (update_booking cd d actor bid
                      [''status'' \<mapsto> JStr (status_text s)] nid now now2)) bid) = Some s)
         \<and> (role actor \<noteq> ''admin'' \<and> bk_guest_id cur \<noteq> user_id actor \<and> bk_host_id cur \<noteq> user_id actor
            \<longrightarrow> update_booking cd d actor bid req nid now now2 = (Inl FORBIDDEN_ACCESS, d))"
proof (intro conjI impI)
  assume "role actor = ''admin'' \<or> bk_guest_id cur = user_id actor \<or> bk_host_id cur = user_id actor"
  from update_booking_status_only[OF assms(1) this]
  show "map_option bk_status
          (find_booking (snd (update_booking cd d actor bid
              [''status'' \<mapsto> JStr (status_text s)] nid now now2)) bid) = Some s"
    by simp
next
  assume "role actor \<noteq> ''admin'' \<and> bk_guest_id cur \<noteq> user_id actor \<and> bk_host_id cur \<noteq> user_id actor"
  then show "update_booking cd d actor bid req nid now now2 = (Inl FORBIDDEN_ACCESS, d)"
    using assms(1) by (simp add: update_booking_def)
qed

theorem update_booking_confirm_decline_by_any_party_witness:
  "map_option bk_status
     (find_booking (snd (update_booking keep_text seed_db guest_004 ''book_002''
         [''status'' \<mapsto> JStr ''confirmed''] ''n1'' ''t1'' ''t2'')) ''book_002'') = Some Confirmed
   \<and> update_booking keep_text seed_db guest_002 ''book_002''
         [''status'' \<mapsto> JStr ''confirmed''] ''n1'' ''t1'' ''t2'' = (Inl FORBIDDEN_ACCESS, seed_db)"
proof -
  let ?cur = "\<lparr>bk_booking_id = ''book_002'', bk_property_id = ''prop_003'', bk_guest_id = ''user_004'',
       bk_host_id = ''user_003'', bk_check_in = ''2023-06-10'', bk_check_out = ''2023-06-15'',
       bk_guest_count = 4, bk_total_price = 650, bk_service_fee = 65,
       bk_special_requests = Some ''Celebrating anniversary'', bk_status = Pending,
       bk_created_at = ''2023-05-15T10:00:00Z'', bk_updated_at = ''2023-05-15T10:00:00Z''\<rparr>"
  have h1: "find_booking seed_db ''book_002'' = Some ?cur"
    by (simp add: find_booking_def seed_db_def seed_bookings_def)
  have h2: "bk_status ?cur = Pending" by simp
  have h3: "Confirmed = Confirmed \<or> Confirmed = Declined" by simp
  from update_booking_confirm_decline_by_any_party
         [OF h1 h2 h3, of guest_004 keep_text "''n1''" "''t1''" "''t2''"]
  have "map_option bk_status
     (find_booking (snd (update_booking keep_text seed_db guest_004 ''book_002''
         [''status'' \<mapsto> JStr ''confirmed''] ''n1'' ''t1'' ''t2'')) ''book_002'') = Some Confirmed"
    by (simp add: guest_004_def)
  moreover from update_booking_confirm_decline_by_any_party
         [OF h1 h2 h3, of guest_002 keep_text "''n1''" "''t1''" "''t2''"
            "[''status'' \<mapsto> JStr ''confirmed'']"]
  have "update_booking keep_text seed_db guest_002 ''book_002''
         [''status'' \<mapsto> JStr ''confirmed''] ''n1'' ''t1'' ''t2'' = (Inl FORBIDDEN_ACCESS, seed_db)"
    by (simp add: guest_002_def)
  ultimately show ?thesis by simp
qed

text \<open>
  C8 as stated fails: the guest of the seeded pending booking \<^verbatim>\<open>book_002\<close> confirms it, and
  the request succeeds.
\<close>

theorem update_booking_guest_confirms:
  "map_option bk_status (find_booking seed_db ''book_002'') = Some Pending
   \<and> map_option bk_guest_id (find_booking seed_db ''book_002'') = Some (user_id guest_004)
   \<and> role guest_004 = ''guest''
   \<and> map_sum id bk_status (fst (update_booking keep_text seed_db guest_004 ''book_002''
         [''status'' \<mapsto> JStr ''confirmed''] ''n1'' ''t1'' ''t2'')) = Inr Confirmed
   \<and> map_option bk_status (find_booking (snd (update_booking keep_text seed_db guest_004 ''book_002''
         [''status'' \<mapsto> JStr ''confirmed''] ''n1'' ''t1'' ''t2'')) ''book_002'') = Some Confirmed"
  by code_simp

subsection \<open>Creating a booking\<close>

lemma create_booking_success:
  assumes "create_booking cd d actor req n1 n2 n3 now = (Inr b, d')"
  shows "\<exists>bookingData p c n d1 d2.
           createBookingInputSchema cd (req(''guest_id'' \<mapsto> JStr (user_id actor))) = Some bookingData
         \<and> find_property d (cb_property_id bookingData) = Some p
         \<and> insert_booking d b = Some d1
         \<and> insert_conversation d1 c = Some d2
         \<and> insert_notification d2 n = Some d'
         \<and> bk_booking_id b = ''book_'' @ n1
         \<and> bk_property_id b = cb_property_id bookingData
         \<and> bk_host_id b = pr_host_id p
         \<and> bk_status b = cb_status bookingData
         \<and> cv_booking_id c = bk_booking_id b
         \<and> nt_user_id n = pr_host_id p \<and> nt_type n = ''booking_request''"
  using assms unfolding create_booking_def Let_def
  apply (clarsimp split: option.splits)
  apply (intro exI conjI)
  apply (assumption | simp)+
  done

lemma insert_booking_Some:
  "insert_booking d b = Some d1 \<Longrightarrow>
     d1 = d\<lparr>bookings := bookings d @ [b]\<rparr> \<and> bk_booking_id b \<notin> set (map bk_booking_id (bookings d))"
  by (auto simp: insert_booking_def split: if_splits)

lemma insert_conversation_Some:
  "insert_conversation d c = Some d1 \<Longrightarrow> d1 = d\<lparr>conversations := conversations d @ [c]\<rparr>"
  by (auto simp: insert_conversation_def split: if_splits)

lemma insert_notification_Some:
  "insert_notification d n = Some d1 \<Longrightarrow> d1 = d\<lparr>notifications := notifications d @ [n]\<rparr>"
  by (auto simp: insert_notification_def split: if_splits)

lemma no_conversation_of_fresh_booking:
  assumes "conversations_reference_bookings d" and "bid \<notin> set (map bk_booking_id (bookings d))"
  shows "filter (\<lambda>c. cv_booking_id c = bid) (conversations d) = []"
  using assms unfolding conversations_reference_bookings_def list_all_iff
  by (auto simp: filter_empty_conv)

text \<open>
  C2.  A booking creation that answers 201 has appended the booking, exactly one conversation,
  whose \<^verbatim>\<open>booking_id\<close> is the new booking's and which is the only conversation of that
  booking, and exactly one notification, addressed to the host of the booked property, of
  type \<^verbatim>\<open>booking_request\<close>.  The store is assumed to satisfy the foreign key of
  \<^verbatim>\<open>conversations.booking_id\<close>.
\<close>

theorem create_booking_one_conversation_one_notification:
  assumes "create_booking cd d actor req n1 n2 n3 now = (Inr b, d')"
    and "conversations_reference_bookings d"
  shows "\<exists>c n p. bookings d' = bookings d @ [b]
           \<and> conversations d' = conversations d @ [c]
           \<and> cv_booking_id c = bk_booking_id b
           \<and> filter (\<lambda>c. cv_booking_id c = bk_booking_id b) (conversations d') = [c]
           \<and> notifications d' = notifications d @ [n]
           \<and> find_property d (bk_property_id b) = Some p
           \<and> nt_user_id n = pr_host_id p
           \<and> nt_type n = ''booking_request''"
proof -
  from create_booking_success[OF assms(1)] obtain bookingData p c n d1 d2 where
    f: "createBookingInputSchema cd (req(''guest_id'' \<mapsto> JStr (user_id actor))) = Some bookingData
         \<and> find_property d (cb_property_id bookingData) = Some p
         \<and> insert_booking d b = Some d1
         \<and> insert_conversation d1 c = Some d2
         \<and> insert_notification d2 n = Some d'
         \<and> bk_booking_id b = ''book_'' @ n1
         \<and> bk_property_id b = cb_property_id bookingData
         \<and> bk_host_id b = pr_host_id p
         \<and> bk_status b = cb_status bookingData
         \<and> cv_booking_id c = bk_booking_id b
         \<and> nt_user_id n = pr_host_id p \<and> nt_type n = ''booking_request''"
    by blast
  from f have p: "find_property d (cb_property_id bookingData) = Some p"
    and bp: "bk_property_id b = cb_property_id bookingData"
    and i1: "insert_booking d b = Some d1"
    and cb: "cv_booking_id c = bk_booking_id b"
    and i2: "insert_conversation d1 c = Some d2"
    and n: "nt_user_id n = pr_host_id p" "nt_type n = ''booking_request''"
    and i3: "insert_notification d2 n = Some d'"
    by simp_all
  have d1: "d1 = d\<lparr>bookings := bookings d @ [b]\<rparr>"
    and fresh: "bk_booking_id b \<notin> set (map bk_booking_id (bookings d))"
    using insert_booking_Some[OF i1] by simp_all
  have d2: "d2 = d1\<lparr>conversations := conversations d1 @ [c]\<rparr>"
    using insert_conversation_Some[OF i2] .
  have d3: "d' = d2\<lparr>notifications := notifications d2 @ [n]\<rparr>"
    using insert_notification_Some[OF i3] .
  have none: "filter (\<lambda>c. cv_booking_id c = bk_booking_id b) (conversations d) = []"
    using no_conversation_of_fresh_booking[OF assms(2) fresh] .
  have "bookings d' = bookings d @ [b]" by (simp add: d1 d2 d3)
  moreover have "conversations d' = conversations d @ [c]" by (simp add: d1 d2 d3)
  moreover have "filter (\<lambda>c. cv_booking_id c = bk_booking_id b) (conversations d') = [c]"
    using none cb by (simp add: d1 d2 d3)
  moreover have "notifications d' = notifications d @ [n]" by (simp add: d1 d2 d3)
  moreover have "find_property d (bk_property_id b) = Some p" using p bp by simp
  ultimately show ?thesis using cb n by blast
qed

theorem create_booking_one_conversation_one_notification_witness:
  "\<exists>c n p.
       bookings (snd (create_booking keep_text seed_db guest_002 (booking_body ''prop_001'')
                        ''n1'' ''n2'' ''n3'' ''2023-07-20T10:00:00Z''))
         = bookings seed_db @
             [\<lparr>bk_booking_id = ''book_n1'', bk_property_id = ''prop_001'', bk_guest_id = ''user_002'',
               bk_host_id = ''user_001'', bk_check_in = ''2023-08-01'', bk_check_out = ''2023-08-05'',
               bk_guest_count = 2, bk_total_price = 500, bk_service_fee = 50,
               bk_special_requests = None, bk_status = Pending,
               bk_created_at = ''2023-07-20T10:00:00Z'', bk_updated_at = ''2023-07-20T10:00:00Z''\<rparr>]
     \<and> conversations (snd (create_booking keep_text seed_db guest_002 (booking_body ''prop_001'')
                        ''n1'' ''n2'' ''n3'' ''2023-07-20T10:00:00Z''))
         = conversations seed_db @ [c]
     \<and> cv_booking_id c = ''book_n1''
     \<and> filter (\<lambda>c. cv_booking_id c = ''book_n1'')
          (conversations (snd (create_booking keep_text seed_db guest_002 (booking_body ''prop_001'')
                        ''n1'' ''n2'' ''n3'' ''2023-07-20T10:00:00Z''))) = [c]
     \<and> notifications (snd (create_booking keep_text seed_db guest_002 (booking_body ''prop_001'')
                        ''n1'' ''n2'' ''n3'' ''2023-07-20T10:00:00Z''))
         = notifications seed_db @ [n]
     \<and> find_property seed_db ''prop_001'' = Some p
     \<and> nt_user_id n = pr_host_id p
     \<and> nt_type n = ''booking_request''"
proof -
  let ?r = "create_booking keep_text seed_db guest_002 (booking_body ''prop_001'')
              ''n1'' ''n2'' ''n3'' ''2023-07-20T10:00:00Z''"
  let ?b = "\<lparr>bk_booking_id = ''book_n1'', bk_property_id = ''prop_001'', bk_guest_id = ''user_002'',
               bk_host_id = ''user_001'', bk_check_in = ''2023-08-01'', bk_check_out = ''2023-08-05'',
               bk_guest_count = 2, bk_total_price = 500, bk_service_fee = 50,
               bk_special_requests = None, bk_status = Pending,
               bk_created_at = ''2023-07-20T10:00:00Z'', bk_updated_at = ''2023-07-20T10:00:00Z''\<rparr>"
  have "fst ?r = Inr ?b" by code_simp
  then have h1: "?r = (Inr ?b, snd ?r)" by (simp add: prod_eq_iff)
  have h2: "conversations_reference_bookings seed_db" by code_simp
  from create_booking_one_conversation_one_notification [OF h1 h2]
  show ?thesis by simp
qed






subsection \<open>Creating a review\<close>

lemma create_review_not_completed:
  assumes "find_booking d bid = Some b" and "bk_guest_id b = user_id actor"
    and "bk_status b \<noteq> Completed"
  shows "create_review d actor bid req n1 n2 now = (Inl BOOKING_NOT_COMPLETED, d)"
  using assms by (simp add: create_review_def)

lemma insert_review_Some:
  "insert_review d r = Some d1 \<Longrightarrow> d1 = d\<lparr>reviews := reviews d @ [r]\<rparr>"
  by (auto simp: insert_review_def split: if_splits)

lemma create_review_outcome:
  "snd (create_review d actor bid req n1 n2 now) = d
   \<or> ((\<exists>b. find_booking d bid = Some b \<and> bk_guest_id b = user_id actor \<and> bk_status b = Completed)
       \<and> filter (\<lambda>r. rv_booking_id r = bid) (reviews d) = []
       \<and> map rv_booking_id (reviews (snd (create_review d actor bid req n1 n2 now)))
             = map rv_booking_id (reviews d) @ [bid])"
  unfolding create_review_def Let_def
  by (auto split: option.splits dest!: insert_review_Some insert_notification_Some)

lemma create_review_changes:
  assumes "reviews (snd (create_review d actor bid req n1 n2 now)) \<noteq> reviews d"
  shows "(\<exists>b. find_booking d bid = Some b \<and> bk_guest_id b = user_id actor \<and> bk_status b = Completed)
         \<and> filter (\<lambda>r. rv_booking_id r = bid) (reviews d) = []
         \<and> map rv_booking_id (reviews (snd (create_review d actor bid req n1 n2 now)))
             = map rv_booking_id (reviews d) @ [bid]"
proof -
  from assms have "snd (create_review d actor bid req n1 n2 now) \<noteq> d" by auto
  with create_review_outcome[of d actor bid req n1 n2 now] show ?thesis by blast
qed

lemma create_review_Inr:
  assumes "create_review d actor bid req n1 n2 now = (Inr r, d')"
  shows "reviews d' = reviews d @ [r] \<and> rv_booking_id r = bid \<and> bookings d' = bookings d
         \<and> (\<exists>b. find_booking d bid = Some b \<and> bk_guest_id b = user_id actor \<and> bk_status b = Completed)"
  using assms unfolding create_review_def Let_def
  by (auto split: option.splits if_splits dest!: insert_review_Some insert_notification_Some)

lemma create_review_existing:
  assumes "find_booking d bid = Some b" and "bk_guest_id b = user_id actor"
    and "bk_status b = Completed" and "filter (\<lambda>r. rv_booking_id r = bid) (reviews d) \<noteq> []"
  shows "create_review d actor bid req n1 n2 now = (Inl REVIEW_ALREADY_EXISTS, d)"
  using assms by (simp add: create_review_def)

lemma create_review_distinct:
  assumes "distinct (map rv_booking_id (reviews d))"
  shows "distinct (map rv_booking_id (reviews (snd (create_review d actor bid req n1 n2 now))))"
proof (cases "reviews (snd (create_review d actor bid req n1 n2 now)) = reviews d")
  case True
  then show ?thesis using assms by simp
next
  case False
  from create_review_changes[OF False]
  have none: "filter (\<lambda>r. rv_booking_id r = bid) (reviews d) = []"
    and m: "map rv_booking_id (reviews (snd (create_review d actor bid req n1 n2 now)))
             = map rv_booking_id (reviews d) @ [bid]"
    by simp_all
  from none have "bid \<notin> set (map rv_booking_id (reviews d))"
    by (auto simp: filter_empty_conv)
  with assms m show ?thesis by simp
qed

text \<open>
  C3.  For the guest of a booking that is pending, confirmed, declined or cancelled, the
  review request is answered with BOOKING_NOT_COMPLETED and the store stays as it was; and
  whenever the handler writes a review row, or answers with the new review, the booking is
  completed and the actor is its guest.
\<close>

theorem create_review_gated:
  "(find_booking d bid = Some b \<and> bk_guest_id b = user_id actor
      \<and> bk_status b \<in> {Pending, Confirmed, Declined, Cancelled}
      \<longrightarrow> create_review d actor bid req n1 n2 now = (Inl BOOKING_NOT_COMPLETED, d))
   \<and> (reviews (snd (create_review d actor bid req n1 n2 now)) \<noteq> reviews d
      \<longrightarrow> (\<exists>b. find_booking d bid = Some b \<and> bk_status b = Completed \<and> bk_guest_id b = user_id actor))
   \<and> (fst (create_review d actor bid req n1 n2 now) = Inr r
      \<longrightarrow> (\<exists>b. find_booking d bid = Some b \<and> bk_status b = Completed \<and> bk_guest_id b = user_id actor))"
proof (intro conjI impI)
  assume "find_booking d bid = Some b \<and> bk_guest_id b = user_id actor
      \<and> bk_status b \<in> {Pending, Confirmed, Declined, Cancelled}"
  then have "find_booking d bid = Some b" "bk_guest_id b = user_id actor" "bk_status b \<noteq> Completed"
    by auto
  then show "create_review d actor bid req n1 n2 now = (Inl BOOKING_NOT_COMPLETED, d)"
    by (rule create_review_not_completed)
next
  assume "reviews (snd (create_review d actor bid req n1 n2 now)) \<noteq> reviews d"
  from create_review_changes[OF this]
  show "\<exists>b. find_booking d bid = Some b \<and> bk_status b = Completed \<and> bk_guest_id b = user_id actor"
    by auto
next
  assume "fst (create_review d actor bid req n1 n2 now) = Inr r"
  then have "create_review d actor bid req n1 n2 now = (Inr r, snd (create_review d actor bid req n1 n2 now))"
    by (simp add: prod_eq_iff)
  from create_review_Inr[OF this]
  show "\<exists>b. find_booking d bid = Some b \<and> bk_status b = Completed \<and> bk_guest_id b = user_id actor"
    by auto
qed

theorem create_review_gated_witness:
  "create_review seed_db guest_004 ''book_002'' review_body ''r1'' ''m1'' ''2023-06-20T10:00:00Z''
     = (Inl BOOKING_NOT_COMPLETED, seed_db)
   \<and> (\<exists>b. find_booking completed_db ''book_002'' = Some b \<and> bk_status b = Completed
          \<and> bk_guest_id b = user_id guest_004)"
proof -
  let ?cur = "\<lparr>bk_booking_id = ''book_002'', bk_property_id = ''prop_003'', bk_guest_id = ''user_004'',
       bk_host_id = ''user_003'', bk_check_in = ''2023-06-10'', bk_check_out = ''2023-06-15'',
       bk_guest_count = 4, bk_total_price = 650, bk_service_fee = 65,
       bk_special_requests = Some ''Celebrating anniversary'', bk_status = Pending,
       bk_created_at = ''2023-05-15T10:00:00Z'', bk_updated_at = ''2023-05-15T10:00:00Z''\<rparr>"
  have h1: "find_booking seed_db ''book_002'' = Some ?cur \<and> bk_guest_id ?cur = user_id guest_004
              \<and> bk_status ?cur \<in> {Pending, Confirmed, Declined, Cancelled}"
    by (simp add: find_booking_def seed_db_def seed_bookings_def guest_004_def)
  have h2: "reviews (snd (create_review completed_db guest_004 ''book_002'' review_body
                ''r1'' ''m1'' ''2023-06-20T10:00:00Z'')) \<noteq> reviews completed_db"
    by code_simp
  from create_review_gated [of seed_db "''book_002''" ?cur guest_004 review_body
          "''r1''" "''m1''" "''2023-06-20T10:00:00Z''"] h1
  have a: "create_review seed_db guest_004 ''book_002'' review_body ''r1'' ''m1'' ''2023-06-20T10:00:00Z''
     = (Inl BOOKING_NOT_COMPLETED, seed_db)"
    by blast
  from create_review_gated [of completed_db "''book_002''" ?cur guest_004 review_body
          "''r1''" "''m1''" "''2023-06-20T10:00:00Z''"] h2
  have b: "\<exists>b. find_booking completed_db ''book_002'' = Some b \<and> bk_status b = Completed
          \<and> bk_guest_id b = user_id guest_004"
    by blast
  from a b show ?thesis by simp
qed

text \<open>
  Served without interruption, a request is what \<open>create_review\<close> computes: its four
  steps in a row.
\<close>

lemma serve_uninterrupted:
  "serve d [(\<lparr>rq_actor = actor, rq_booking_id = bid, rq_body = req,
               rq_n1 = n1, rq_n2 = n2, rq_now = now\<rparr>, Arrived)] [0, 0, 0, 0]
     = ([(\<lparr>rq_actor = actor, rq_booking_id = bid, rq_body = req,
               rq_n1 = n1, rq_n2 = n2, rq_now = now\<rparr>,
          Answered (fst (create_review d actor bid req n1 n2 now)))],
        snd (create_review d actor bid req n1 n2 now))"
  by (simp add: create_review_def Let_def split: option.splits)

text \<open>
  Requests served one after the other keep the reviews of a store distinct in their
  \<^verbatim>\<open>booking_id\<close>, and the second request for a reviewed booking is turned away.
\<close>

lemma second_review_rejected_in_sequence:
  assumes "create_review d actor bid req n1 n2 now = (Inr r, d')"
  shows "create_review d' actor bid req' m1 m2 now' = (Inl REVIEW_ALREADY_EXISTS, d')"
proof -
  from create_review_Inr[OF assms] obtain b where
    r: "reviews d' = reviews d @ [r]" "rv_booking_id r = bid" "bookings d' = bookings d"
    and b: "find_booking d bid = Some b" "bk_guest_id b = user_id actor" "bk_status b = Completed"
    by auto
  from r(3) b(1) have "find_booking d' bid = Some b" by (simp add: find_booking_def)
  moreover from r have "filter (\<lambda>r. rv_booking_id r = bid) (reviews d') \<noteq> []" by simp
  ultimately show ?thesis
    using b by (simp add: create_review_existing)
qed

text \<open>
  C4.  The code breaks the claim.  Two review requests of the guest for the completed
  booking \<^verbatim>\<open>book_002\<close>, served so that each has made its SELECT of an existing review
  before the other's INSERT: both are answered with their new review, and the store holds
  two reviews of \<^verbatim>\<open>book_002\<close>.  Served one after the other, the second is answered with
  REVIEW_ALREADY_EXISTS and the store holds one.
\<close>

theorem two_reviews_when_requests_interleave:
  "map answer (fst (serve completed_db
       [(first_review_request, Arrived), (second_review_request, Arrived)]
       [0, 1, 0, 1, 0, 1, 0, 1]))
     = [Some (Inr ''rev_r1''), Some (Inr ''rev_r2'')]
   \<and> map rv_booking_id (reviews (snd (serve completed_db
       [(first_review_request, Arrived), (second_review_request, Arrived)]
       [0, 1, 0, 1, 0, 1, 0, 1])))
     = [''book_001'', ''book_002'', ''book_002'']
   \<and> map answer (fst (serve completed_db
       [(first_review_request, Arrived), (second_review_request, Arrived)]
       [0, 0, 0, 0, 1, 1, 1, 1]))
     = [Some (Inr ''rev_r1''), Some (Inl REVIEW_ALREADY_EXISTS)]
   \<and> map rv_booking_id (reviews (snd (serve completed_db
       [(first_review_request, Arrived), (second_review_request, Arrived)]
       [0, 0, 0, 0, 1, 1, 1, 1])))
     = [''book_001'', ''book_002'']"
  by code_simp

subsection \<open>Searching and fetching properties\<close>

lemma set_insert_by: "set (insert_by le x xs) = insert x (set xs)"
  by (induction xs) auto

lemma set_order_by: "set (order_by le xs) = set xs"
  unfolding order_by_def by (induction xs) (simp_all add: set_insert_by)



lemma search_properties_Inr:
  assumes "search_properties d sp = Inr resp"
  shows "\<exists>limit offset. sp_limit sp = Some limit \<and> sp_offset sp = Some offset \<and> 0 \<le> limit \<and> 0 \<le> offset
           \<and> sr_properties resp =
               take (nat limit) (drop (nat offset)
                 (order_by (search_order (sp_sort_by sp)) (filter (search_where d sp) (properties d))))
           \<and> sr_total_count resp = length (filter (\<lambda>p. pr_is_active p = True) (properties d))"
  using assms unfolding search_properties_def
  by (auto split: option.splits if_splits)


lemma search_results_subset:
  assumes "search_properties d sp = Inr resp"
  shows "set (sr_properties resp) \<subseteq> {p \<in> set (properties d). search_where d sp p}"
proof -
  from search_properties_Inr[OF assms] obtain limit offset where
    "sr_properties resp =
       take (nat limit) (drop (nat offset)
         (order_by (search_order (sp_sort_by sp)) (filter (search_where d sp) (properties d))))"
    by blast
  then have "set (sr_properties resp)
      \<subseteq> set (order_by (search_order (sp_sort_by sp)) (filter (search_where d sp) (properties d)))"
    by (metis set_take_subset set_drop_subset subset_trans)
  then show ?thesis by (simp add: set_order_by)
qed


lemma search_where_active: "search_where d sp p \<Longrightarrow> pr_is_active p"
  by (simp add: search_where_def)

lemma find_property_distinct:
  assumes "distinct (map pr_property_id ps)" and "p \<in> set ps"
  shows "find (\<lambda>q. pr_property_id q = pr_property_id p) ps = Some p"
  using assms by (induction ps) (auto simp: rev_image_eqI)

text \<open>
  C6.  A property with \<^verbatim>\<open>is_active = false\<close> is in no answer of the search, whatever the
  parameters; fetched by its id it is returned (the ids being unique, as the primary key
  makes them).
\<close>

theorem inactive_hidden_from_search_but_fetchable:
  "(p \<in> set (properties d) \<and> pr_is_active p = False \<and> search_properties d sp = Inr resp
      \<longrightarrow> p \<notin> set (sr_properties resp))
   \<and> (p \<in> set (properties d) \<and> distinct (map pr_property_id (properties d))
      \<longrightarrow> get_property d (pr_property_id p) = Inr p)"
proof (intro conjI impI)
  assume a: "p \<in> set (properties d) \<and> pr_is_active p = False \<and> search_properties d sp = Inr resp"
  then have "set (sr_properties resp) \<subseteq> {p \<in> set (properties d). search_where d sp p}"
    using search_results_subset by blast
  with a show "p \<notin> set (sr_properties resp)"
    using search_where_active by blast
next
  assume "p \<in> set (properties d) \<and> distinct (map pr_property_id (properties d))"
  then have "find_property d (pr_property_id p) = Some p"
    unfolding find_property_def using find_property_distinct by blast
  then show "get_property d (pr_property_id p) = Inr p"
    by (simp add: get_property_def)
qed

theorem inactive_hidden_from_search_but_fetchable_witness:
  "prop_002\<lparr>pr_is_active := False\<rparr>
      \<notin> set (sr_properties (projr (search_properties (deactivate_property seed_db ''prop_002'') no_filters)))
   \<and> get_property (deactivate_property seed_db ''prop_002'') ''prop_002''
       = Inr (prop_002\<lparr>pr_is_active := False\<rparr>)"
proof -
  let ?d = "deactivate_property seed_db ''prop_002''"
  let ?p = "prop_002\<lparr>pr_is_active := False\<rparr>"
  have "\<not> isl (search_properties ?d no_filters)" by code_simp
  then have h1: "search_properties ?d no_filters = Inr (projr (search_properties ?d no_filters))"
    by simp
  have h2: "?p \<in> set (properties ?d)" by code_simp
  have h3: "pr_is_active ?p = False" by simp
  have h4: "distinct (map pr_property_id (properties ?d))" by code_simp
  have h5: "pr_property_id ?p = ''prop_002''" by (simp add: prop_002_def)
  from inactive_hidden_from_search_but_fetchable
         [of ?p ?d no_filters "projr (search_properties ?d no_filters)"] h1 h2 h3 h4
  have "?p \<notin> set (sr_properties (projr (search_properties ?d no_filters)))
        \<and> get_property ?d (pr_property_id ?p) = Inr ?p"
    by blast
  then show ?thesis by (simp add: h5)
qed









subsection \<open>Setting availability\<close>

lemma upsert_availability_rejected: "upsert_availability d row = None"
  by (simp add: upsert_availability_def conflict_target_ok_def property_availability_unique_def)

lemma set_availability_never_writes:
  "snd (set_availability cd d actor pid req n1) = d \<and> isl (fst (set_availability cd d actor pid req n1))"
  by (simp add: set_availability_def upsert_availability_rejected split: option.splits)

text \<open>
  C9.  The request of the repository's own test, by the host of \<^verbatim>\<open>prop_001\<close> on the seeded
  store: the INSERT names the conflict target (property_id, date), the table declares no
  unique constraint on it, the statement is rejected and nothing is written.
\<close>

theorem set_availability_rejected:
  "set_availability keep_text seed_db host_001 ''prop_001'' availability_body ''a1''
     = (Inl INTERNAL_SERVER_ERROR, seed_db)"
  by code_simp

end
